theory Spec2Isabelle
  imports Complex_Main "HOL-Library.Multiset"
begin

section \<open>Python values used by the fingerprinting engine\<close>

text \<open>
  The engine is \<^verbatim>\<open>ContentFingerprinter\<close> in \<^verbatim>\<open>apps/engine/gnan.py\<close>.
  A Python exception is the value \<open>Inl msg\<close> of a sum type, \<open>msg\<close> being \<open>str(e)\<close>.
  A Python float is a real number or NaN: arithmetic is exact (rounding is not modelled),
  and NaN is what numpy's division returns for \<open>0.0 / 0.0\<close>. A Python \<open>str\<close> is a
  \<open>string\<close>, one \<open>char\<close> per code point (code points below 256). Content is a
  \<open>str\<close>, and every such string encodes as UTF-8: the \<^verbatim>\<open>.encode()\<close> calls in front of
  the digests return. What is proved about exceptions is about such content.
\<close>

type_synonym exn = string

datatype pyfloat = NaN | Fl real

text \<open>The comparisons \<^verbatim>\<open>a >= b\<close> and \<^verbatim>\<open>a < b\<close> of floats: false when a side is NaN.\<close>

fun py_ge :: "pyfloat \<Rightarrow> pyfloat \<Rightarrow> bool" where
  "py_ge (Fl x) (Fl y) = (y \<le> x)"
| "py_ge _ _ = False"

fun py_lt :: "pyfloat \<Rightarrow> pyfloat \<Rightarrow> bool" where
  "py_lt (Fl x) (Fl y) = (x < y)"
| "py_lt _ _ = False"

section \<open>The fingerprint record\<close>

text \<open>
  A feature bundle is the dict an extractor returns: a key is absent (\<open>None\<close>) or holds
  a value of the type the extractor writes under it. A fingerprint is the dict
  \<^verbatim>\<open>generate_fingerprint\<close> builds: its own four keys, updated with the bundle. The
  keys \<^verbatim>\<open>functions\<close> and \<^verbatim>\<open>imports\<close> are the fields \<open>functions_key\<close> and
  \<open>imports_key\<close>.
\<close>

record feature_bundle =
  content_hash :: "string option"
  openai_embedding :: "real list option"
  local_embedding :: "real list option"
  word_count :: "nat option"
  char_count :: "nat option"
  ngram_signature :: "string list option"
  language :: "string option"
  error :: "string option"
  perceptual_hashes :: "(string \<times> string) list option"
  dimensions :: "(nat \<times> nat) option"
  mode :: "string option"
  file_size :: "nat option"
  duration :: "real option"
  sample_rate :: "nat option"
  tempo :: "real option"
  spectral_centroid_mean :: "real option"
  spectral_rolloff_mean :: "real option"
  mfcc_features :: "real list option"
  token_hash :: "string option"
  ast_hash :: "string option"
  line_count :: "nat option"
  non_empty_lines :: "nat option"
  functions_key :: "string list option"
  classes :: "string list option"
  imports_key :: "string list option"
  complexity_score :: "nat option"

record fingerprint = feature_bundle +
  fingerprint_id :: string
  content_type :: string
  timestamp :: string
  metadata :: "(string \<times> string) list"

definition empty_bundle :: feature_bundle where
  "empty_bundle =
     \<lparr> content_hash = None, openai_embedding = None, local_embedding = None,
       word_count = None, char_count = None, ngram_signature = None, language = None,
       error = None, perceptual_hashes = None, dimensions = None, mode = None,
       file_size = None, duration = None, sample_rate = None, tempo = None,
       spectral_centroid_mean = None, spectral_rolloff_mean = None, mfcc_features = None,
       token_hash = None, ast_hash = None, line_count = None, non_empty_lines = None,
       functions_key = None, classes = None, imports_key = None, complexity_score = None \<rparr>"

section \<open>The libraries the engine calls\<close>

text \<open>
  Everything the engine takes from outside the repository is a field of \<open>env\<close>: the
  digests of \<^verbatim>\<open>hashlib\<close>, the clock, the two embedding models, the image and audio
  decoders, the file system, \<^verbatim>\<open>imagehash\<close>'s distance between two hex strings
  (\<^verbatim>\<open>hex_to_hash(a) - hex_to_hash(b)\<close>) and Python's parser. A call that can raise
  returns a sum.
\<close>

record image =
  phash :: string
  dhash :: string
  ahash :: string
  whash :: string
  width :: nat
  height :: nat
  image_mode :: string

record audio_features =
  au_duration :: real
  au_tempo :: real
  au_spectral_centroid_mean :: real
  au_spectral_rolloff_mean :: real
  au_mfcc_mean :: "real list"

datatype node_kind =
    FunctionDef string
  | ClassDef string
  | Import "string list"
  | ImportFrom "string option"
  | AST_If
  | AST_While
  | AST_For
  | AST_Try
  | Other string

datatype ast = Node node_kind "ast list"

record env =
  sha256_hexdigest :: "string \<Rightarrow> string"
  md5_hexdigest :: "string \<Rightarrow> string"
  utcnow_isoformat :: string
  embeddings_create :: "string \<Rightarrow> exn + real list"
  sentence_encode :: "string \<Rightarrow> exn + real list"
  image_open :: "string \<Rightarrow> exn + image"
  read_bytes :: "string \<Rightarrow> exn + string"
  getsize :: "string \<Rightarrow> exn + nat"
  librosa_load :: "string \<Rightarrow> exn + (real list \<times> nat)"
  librosa_features :: "real list \<Rightarrow> nat \<Rightarrow> exn + audio_features"
  hash_distance :: "string \<Rightarrow> string \<Rightarrow> exn + nat"
  ast_parse :: "string \<Rightarrow> exn + ast"
  ast_dump :: "ast \<Rightarrow> string"

section \<open>String helpers\<close>

text \<open>The characters \<^verbatim>\<open>str.isspace\<close> accepts among the code points below 256.\<close>

definition is_space :: "char \<Rightarrow> bool" where
  "is_space c =
     (let n = (of_char c :: nat)
      in (9 \<le> n \<and> n \<le> 13) \<or> (28 \<le> n \<and> n \<le> 32) \<or> n = 133 \<or> n = 160)"

text \<open>\<^verbatim>\<open>s.split()\<close>: the maximal runs of characters that are not whitespace.\<close>

fun split_ws :: "string \<Rightarrow> string \<Rightarrow> string list" where
  "split_ws cur [] = (if cur = [] then [] else [cur])"
| "split_ws cur (c # cs) =
     (if is_space c then (if cur = [] then split_ws [] cs else cur # split_ws [] cs)
      else split_ws (cur @ [c]) cs)"

definition py_split :: "string \<Rightarrow> string list" where
  "py_split s = split_ws [] s"

text \<open>\<^verbatim>\<open>s.split(d)\<close> for a single character \<open>d\<close>.\<close>

fun split_on :: "char \<Rightarrow> string \<Rightarrow> string \<Rightarrow> string list" where
  "split_on d cur [] = [cur]"
| "split_on d cur (c # cs) =
     (if c = d then cur # split_on d [] cs else split_on d (cur @ [c]) cs)"

definition lower_char :: "char \<Rightarrow> char" where
  "lower_char c =
     (let n = (of_char c :: nat)
      in if (65 \<le> n \<and> n \<le> 90) \<or> (192 \<le> n \<and> n \<le> 222 \<and> n \<noteq> 215)
         then char_of (n + 32) else c)"

fun join_space :: "string list \<Rightarrow> string" where
  "join_space [] = []"
| "join_space [w] = w"
| "join_space (w # ws) = w @ '' '' @ join_space ws"

definition extract_ngrams :: "string \<Rightarrow> nat \<Rightarrow> string list" where
  "extract_ngrams text n =
     (let words = py_split (map lower_char text)
      in map (\<lambda>i. join_space (take n (drop i words))) [0 ..< length words + 1 - n])"

definition detect_language :: "string \<Rightarrow> string" where
  "detect_language text = ''en''"

section \<open>The fingerprint builder and the extractors\<close>

definition generate_id :: "env \<Rightarrow> string \<Rightarrow> string \<Rightarrow> string" where
  "generate_id env content ctype =
     ''fp_'' @ ctype @ ''_'' @ take 16 (sha256_hexdigest env (ctype @ '':'' @ content))"

text \<open>The body of the \<^verbatim>\<open>try\<close> of \<^verbatim>\<open>_fingerprint_text\<close>, then its handler.\<close>

definition text_try :: "env \<Rightarrow> string \<Rightarrow> exn + feature_bundle" where
  "text_try env text =
     (case embeddings_create env text of
        Inl e \<Rightarrow> Inl e
      | Inr openai \<Rightarrow>
          (case sentence_encode env text of
             Inl e \<Rightarrow> Inl e
           | Inr local_emb \<Rightarrow>
               Inr (empty_bundle
                 \<lparr> content_hash := Some (md5_hexdigest env text),
                   openai_embedding := Some openai,
                   local_embedding := Some local_emb,
                   word_count := Some (length (py_split text)),
                   char_count := Some (length text),
                   ngram_signature := Some (take 100 (extract_ngrams text 3)),
                   language := Some (detect_language text) \<rparr>)))"

definition fingerprint_text :: "env \<Rightarrow> string \<Rightarrow> exn + feature_bundle" where
  "fingerprint_text env text =
     (case text_try env text of
        Inr b \<Rightarrow> Inr b
      | Inl e \<Rightarrow>
          (case sentence_encode env text of
             Inl e' \<Rightarrow> Inl e'
           | Inr local_emb \<Rightarrow>
               Inr (empty_bundle
                 \<lparr> content_hash := Some (md5_hexdigest env text),
                   local_embedding := Some local_emb,
                   word_count := Some (length (py_split text)),
                   char_count := Some (length text),
                   error := Some e \<rparr>)))"

definition image_try :: "env \<Rightarrow> string \<Rightarrow> exn + feature_bundle" where
  "image_try env image_path =
     (case image_open env image_path of
        Inl e \<Rightarrow> Inl e
      | Inr img \<Rightarrow>
          (case read_bytes env image_path of
             Inl e \<Rightarrow> Inl e
           | Inr bytes \<Rightarrow>
               (case getsize env image_path of
                  Inl e \<Rightarrow> Inl e
                | Inr fsize \<Rightarrow>
                    Inr (empty_bundle
                      \<lparr> content_hash := Some (md5_hexdigest env bytes),
                        perceptual_hashes :=
                          Some [(''phash'', phash img), (''dhash'', dhash img),
                                (''ahash'', ahash img), (''whash'', whash img)],
                        dimensions := Some (width img, height img),
                        mode := Some (image_mode img),
                        file_size := Some fsize \<rparr>))))"

definition fingerprint_image :: "env \<Rightarrow> string \<Rightarrow> feature_bundle" where
  "fingerprint_image env image_path =
     (case image_try env image_path of
        Inr b \<Rightarrow> b
      | Inl e \<Rightarrow> empty_bundle \<lparr> error := Some (''Image fingerprinting failed: '' @ e) \<rparr>)"

definition audio_try :: "env \<Rightarrow> string \<Rightarrow> exn + feature_bundle" where
  "audio_try env audio_path =
     (case librosa_load env audio_path of
        Inl e \<Rightarrow> Inl e
      | Inr (y, sr) \<Rightarrow>
          (case librosa_features env y sr of
             Inl e \<Rightarrow> Inl e
           | Inr f \<Rightarrow>
               (case read_bytes env audio_path of
                  Inl e \<Rightarrow> Inl e
                | Inr bytes \<Rightarrow>
                    (case getsize env audio_path of
                       Inl e \<Rightarrow> Inl e
                     | Inr fsize \<Rightarrow>
                         Inr (empty_bundle
                           \<lparr> content_hash := Some (md5_hexdigest env bytes),
                             duration := Some (au_duration f),
                             sample_rate := Some sr,
                             tempo := Some (au_tempo f),
                             spectral_centroid_mean := Some (au_spectral_centroid_mean f),
                             spectral_rolloff_mean := Some (au_spectral_rolloff_mean f),
                             mfcc_features := Some (au_mfcc_mean f),
                             file_size := Some fsize \<rparr>)))))"

definition fingerprint_audio :: "env \<Rightarrow> string \<Rightarrow> feature_bundle" where
  "fingerprint_audio env audio_path =
     (case audio_try env audio_path of
        Inr b \<Rightarrow> b
      | Inl e \<Rightarrow> empty_bundle \<lparr> error := Some (''Audio fingerprinting failed: '' @ e) \<rparr>)"

text \<open>
  \<^verbatim>\<open>ast.walk(tree)\<close>: breadth first, from a queue that starts with the root.
\<close>

function walk :: "ast list \<Rightarrow> ast list" where
  "walk [] = []"
| "walk (Node k children # todo) = Node k children # walk (todo @ children)"
  by pat_completeness auto
termination
  by (relation "measure (\<lambda>todo. size_list size todo)") auto

fun kind_of :: "ast \<Rightarrow> node_kind" where
  "kind_of (Node k children) = k"

text \<open>
  The three list comprehensions of \<^verbatim>\<open>_fingerprint_code\<close>. The third reads
  \<^verbatim>\<open>node.module\<close> of every \<^verbatim>\<open>ast.Import\<close> node, an attribute only
  \<^verbatim>\<open>ast.ImportFrom\<close> has: the read raises AttributeError.
\<close>

fun function_names :: "ast list \<Rightarrow> string list" where
  "function_names [] = []"
| "function_names (n # ns) =
     (case kind_of n of FunctionDef name \<Rightarrow> name # function_names ns
      | _ \<Rightarrow> function_names ns)"

fun class_names :: "ast list \<Rightarrow> string list" where
  "class_names [] = []"
| "class_names (n # ns) =
     (case kind_of n of ClassDef name \<Rightarrow> name # class_names ns
      | _ \<Rightarrow> class_names ns)"

definition import_has_no_module :: exn where
  "import_has_no_module =
     [CHR 0x27] @ ''Import'' @ [CHR 0x27] @ '' object has no attribute '' @
     [CHR 0x27] @ ''module'' @ [CHR 0x27]"

fun import_modules :: "ast list \<Rightarrow> exn + string list" where
  "import_modules [] = Inr []"
| "import_modules (n # ns) =
     (case kind_of n of
        Import names \<Rightarrow> Inl import_has_no_module
      | _ \<Rightarrow> import_modules ns)"

fun is_branch :: "node_kind \<Rightarrow> bool" where
  "is_branch AST_If = True"
| "is_branch AST_While = True"
| "is_branch AST_For = True"
| "is_branch AST_Try = True"
| "is_branch _ = False"

definition calculate_complexity :: "ast \<Rightarrow> nat" where
  "calculate_complexity tree = length (filter (\<lambda>n. is_branch (kind_of n)) (walk [tree]))"

definition code_try :: "env \<Rightarrow> string \<Rightarrow> exn + feature_bundle" where
  "code_try env code =
     (case ast_parse env code of
        Inl e \<Rightarrow> Inl e
      | Inr tree \<Rightarrow>
          (case import_modules (walk [tree]) of
             Inl e \<Rightarrow> Inl e
           | Inr imports \<Rightarrow>
               (let lines = split_on (CHR 0x0A) [] code;
                    tokens = filter (\<lambda>c. c \<noteq> CHR '' '' \<and> c \<noteq> CHR 0x0A \<and> c \<noteq> CHR 0x09) code
                in Inr (empty_bundle
                     \<lparr> content_hash := Some (md5_hexdigest env code),
                       token_hash := Some (md5_hexdigest env tokens),
                       ast_hash := Some (md5_hexdigest env (ast_dump env tree)),
                       line_count := Some (length lines),
                       non_empty_lines :=
                         Some (length (filter (list_ex (\<lambda>c. \<not> is_space c)) lines)),
                       functions_key := Some (function_names (walk [tree])),
                       classes := Some (class_names (walk [tree])),
                       imports_key := Some imports,
                       complexity_score := Some (calculate_complexity tree) \<rparr>))))"

definition fingerprint_code :: "env \<Rightarrow> string \<Rightarrow> feature_bundle" where
  "fingerprint_code env code =
     (case code_try env code of
        Inr b \<Rightarrow> b
      | Inl e \<Rightarrow>
          empty_bundle
            \<lparr> content_hash := Some (md5_hexdigest env code),
              line_count := Some (length (split_on (CHR 0x0A) [] code)),
              char_count := Some (length code),
              error := Some (''AST parsing failed: '' @ e) \<rparr>)"

text \<open>\<^verbatim>\<open>fingerprint.update(bundle)\<close> on the dict of the four builder keys.\<close>

definition update_with ::
  "string \<Rightarrow> string \<Rightarrow> string \<Rightarrow> (string \<times> string) list \<Rightarrow> feature_bundle \<Rightarrow> fingerprint"
where
  "update_with fid ctype ts md b =
     feature_bundle.extend b
       (fingerprint.fields fid ctype ts md)"

definition generate_fingerprint ::
  "env \<Rightarrow> string \<Rightarrow> string \<Rightarrow> (string \<times> string) list \<Rightarrow> exn + fingerprint"
where
  "generate_fingerprint env content ctype md =
     (let fp = update_with (generate_id env content ctype) ctype (utcnow_isoformat env) md
      in if ctype = ''text'' then
           (case fingerprint_text env content of
              Inl e \<Rightarrow> Inl e
            | Inr b \<Rightarrow> Inr (fp b))
         else if ctype = ''image'' then Inr (fp (fingerprint_image env content))
         else if ctype = ''audio'' then Inr (fp (fingerprint_audio env content))
         else if ctype = ''code'' then Inr (fp (fingerprint_code env content))
         else Inl (''Unsupported content type: '' @ ctype))"

section \<open>Similarity scorers\<close>

definition np_dot :: "real list \<Rightarrow> real list \<Rightarrow> exn + real" where
  "np_dot a b =
     (if length a = length b then Inr (sum_list (map2 (*) a b))
      else Inl ''shapes not aligned'')"

definition np_norm :: "real list \<Rightarrow> real" where
  "np_norm a = sqrt (sum_list (map (\<lambda>x. x * x) a))"

text \<open>
  numpy's division of two float64 scalars does not raise: \<open>0.0 / 0.0\<close> is NaN. The
  denominator of the cosine is 0 only when the numerator is (lemma \<open>cosine_zero_norm\<close>),
  so no other division by zero occurs.
\<close>

definition np_divide :: "real \<Rightarrow> real \<Rightarrow> pyfloat" where
  "np_divide x y = (if y = 0 then NaN else Fl (x / y))"

text \<open>\<^verbatim>\<open>float(np.dot(a, b) / (np.linalg.norm(a) * np.linalg.norm(b)))\<close>\<close>

definition cosine :: "real list \<Rightarrow> real list \<Rightarrow> exn + pyfloat" where
  "cosine a b =
     (case np_dot a b of
        Inl e \<Rightarrow> Inl e
      | Inr d \<Rightarrow> Inr (np_divide d (np_norm a * np_norm b)))"

definition text_similarity :: "fingerprint \<Rightarrow> fingerprint \<Rightarrow> pyfloat" where
  "text_similarity fp1 fp2 =
     (case (openai_embedding fp1, openai_embedding fp2) of
        (Some emb1, Some emb2) \<Rightarrow>
          (case cosine emb1 emb2 of Inr s \<Rightarrow> s | Inl e \<Rightarrow> Fl 0)
      | _ \<Rightarrow>
          (case (local_embedding fp1, local_embedding fp2) of
             (Some emb1, Some emb2) \<Rightarrow>
               (case cosine emb1 emb2 of Inr s \<Rightarrow> s | Inl e \<Rightarrow> Fl 0)
           | _ \<Rightarrow> Fl 0))"

text \<open>The loop over the four hash types; an exception leaves the loop.\<close>

fun hash_similarities ::
  "env \<Rightarrow> (string \<times> string) list \<Rightarrow> (string \<times> string) list \<Rightarrow> string list \<Rightarrow> exn + real list"
where
  "hash_similarities env hashes1 hashes2 [] = Inr []"
| "hash_similarities env hashes1 hashes2 (hash_type # rest) =
     (case (map_of hashes1 hash_type, map_of hashes2 hash_type) of
        (Some h1, Some h2) \<Rightarrow>
          (case hash_distance env h1 h2 of
             Inl e \<Rightarrow> Inl e
           | Inr diff \<Rightarrow>
               (case hash_similarities env hashes1 hashes2 rest of
                  Inl e \<Rightarrow> Inl e
                | Inr sims \<Rightarrow> Inr (max 0 (1 - real diff / 64) # sims)))
      | _ \<Rightarrow> hash_similarities env hashes1 hashes2 rest)"

fun py_max :: "real list \<Rightarrow> real" where
  "py_max [] = 0"
| "py_max (x # xs) = fold max xs x"

definition image_similarity :: "env \<Rightarrow> fingerprint \<Rightarrow> fingerprint \<Rightarrow> pyfloat" where
  "image_similarity env fp1 fp2 =
     (let hashes1 = (case perceptual_hashes fp1 of None \<Rightarrow> [] | Some h \<Rightarrow> h);
          hashes2 = (case perceptual_hashes fp2 of None \<Rightarrow> [] | Some h \<Rightarrow> h)
      in if hashes1 = [] \<or> hashes2 = [] then Fl 0
         else (case hash_similarities env hashes1 hashes2
                      [''phash'', ''dhash'', ''ahash'', ''whash''] of
                 Inl e \<Rightarrow> Fl 0
               | Inr similarities \<Rightarrow>
                   if similarities = [] then Fl 0 else Fl (py_max similarities)))"

definition audio_similarity :: "fingerprint \<Rightarrow> fingerprint \<Rightarrow> pyfloat" where
  "audio_similarity fp1 fp2 =
     (let mfcc1 = (case mfcc_features fp1 of None \<Rightarrow> [] | Some m \<Rightarrow> m);
          mfcc2 = (case mfcc_features fp2 of None \<Rightarrow> [] | Some m \<Rightarrow> m)
      in if mfcc1 = [] \<or> mfcc2 = [] then Fl 0
         else (case cosine mfcc1 mfcc2 of Inr s \<Rightarrow> s | Inl e \<Rightarrow> Fl 0))"

definition code_similarity_value :: "fingerprint \<Rightarrow> fingerprint \<Rightarrow> real" where
  "code_similarity_value fp1 fp2 =
     (let ast_sim = (if ast_hash fp1 = ast_hash fp2 then 1 else 0);
          token_sim = (if token_hash fp1 = token_hash fp2 then 1 else 0);
          funcs1 = set (case functions_key fp1 of None \<Rightarrow> [] | Some f \<Rightarrow> f);
          funcs2 = set (case functions_key fp2 of None \<Rightarrow> [] | Some f \<Rightarrow> f);
          func_sim = real (card (funcs1 \<inter> funcs2)) / real (max (card (funcs1 \<union> funcs2)) 1)
      in 0.4 * ast_sim + 0.3 * token_sim + 0.3 * func_sim)"

definition code_similarity :: "fingerprint \<Rightarrow> fingerprint \<Rightarrow> pyfloat" where
  "code_similarity fp1 fp2 = Fl (code_similarity_value fp1 fp2)"

definition calculate_similarity :: "env \<Rightarrow> fingerprint \<Rightarrow> fingerprint \<Rightarrow> pyfloat" where
  "calculate_similarity env fp1 fp2 =
     (if content_type fp1 = ''text'' then text_similarity fp1 fp2
      else if content_type fp1 = ''image'' then image_similarity env fp1 fp2
      else if content_type fp1 = ''audio'' then audio_similarity fp1 fp2
      else if content_type fp1 = ''code'' then code_similarity fp1 fp2
      else Fl 0)"

section \<open>The match engine\<close>

text \<open>The loop of \<^verbatim>\<open>find_similar_content\<close> over the database.\<close>

fun collect_matches ::
  "env \<Rightarrow> fingerprint \<Rightarrow> fingerprint list \<Rightarrow> pyfloat \<Rightarrow> (fingerprint \<times> pyfloat) list"
where
  "collect_matches env fp [] threshold = []"
| "collect_matches env fp (db_item # database) threshold =
     (if content_type db_item \<noteq> content_type fp
      then collect_matches env fp database threshold
      else let similarity = calculate_similarity env fp db_item
           in if py_ge similarity threshold
              then (db_item, similarity) # collect_matches env fp database threshold
              else collect_matches env fp database threshold)"

text \<open>
  \<^verbatim>\<open>matches.sort(key=lambda x: x[1], reverse=True)\<close>: Python's sort is stable, also
  with \<^verbatim>\<open>reverse=True\<close>, and compares keys with \<^verbatim>\<open><\<close>. The model inserts each
  entry before the first entry of the sorted rest whose score is not greater.
\<close>

fun insert_desc :: "('a \<times> pyfloat) \<Rightarrow> ('a \<times> pyfloat) list \<Rightarrow> ('a \<times> pyfloat) list" where
  "insert_desc x [] = [x]"
| "insert_desc x (y # ys) =
     (if py_lt (snd x) (snd y) then y # insert_desc x ys else x # y # ys)"

fun sort_desc :: "('a \<times> pyfloat) list \<Rightarrow> ('a \<times> pyfloat) list" where
  "sort_desc [] = []"
| "sort_desc (x # xs) = insert_desc x (sort_desc xs)"

definition find_similar_content ::
  "env \<Rightarrow> fingerprint \<Rightarrow> fingerprint list \<Rightarrow> pyfloat \<Rightarrow> (fingerprint \<times> pyfloat) list"
where
  "find_similar_content env fp database threshold =
     sort_desc (collect_matches env fp database threshold)"

text \<open>
  The candidates the loop keeps, in the words of the specification: the content kind is
  the query's and the score is at least the threshold.
\<close>

definition retained :: "env \<Rightarrow> fingerprint \<Rightarrow> pyfloat \<Rightarrow> fingerprint \<Rightarrow> bool" where
  "retained env fp threshold db_item =
     (content_type db_item = content_type fp \<and>
      py_ge (calculate_similarity env fp db_item) threshold)"

section \<open>The code scorer in the words of the specification\<close>

text \<open>
  Section 4.3: 0.4 for equal structural hashes, 0.3 for equal token hashes, and 0.3 times
  the Jaccard similarity of the extracted function/class name sets, the denominator
  being 1 when the union is empty.
\<close>

definition jaccard :: "string set \<Rightarrow> string set \<Rightarrow> real" where
  "jaccard A B =
     real (card (A \<inter> B)) / real (if card (A \<union> B) = 0 then 1 else card (A \<union> B))"

definition symbol_names :: "fingerprint \<Rightarrow> string set" where
  "symbol_names fp =
     set (case functions_key fp of None \<Rightarrow> [] | Some f \<Rightarrow> f) \<union>
     set (case classes fp of None \<Rightarrow> [] | Some c \<Rightarrow> c)"

definition code_similarity_spec :: "fingerprint \<Rightarrow> fingerprint \<Rightarrow> pyfloat" where
  "code_similarity_spec fp1 fp2 =
     Fl (0.4 * (if ast_hash fp1 = ast_hash fp2 then 1 else 0) +
         0.3 * (if token_hash fp1 = token_hash fp2 then 1 else 0) +
         0.3 * jaccard (symbol_names fp1) (symbol_names fp2))"

definition supported_kinds :: "string list" where
  "supported_kinds = [''text'', ''image'', ''audio'', ''code'']"

section \<open>Concrete inputs\<close>

text \<open>
  A small environment for concrete runs: the embedding service is unreachable, the local
  model answers, no file exists, and the parser knows four programs. The digests are
  stand-ins: a fixed string of 64 hex characters for SHA-256, the tagged input for MD5.
\<close>

definition demo_env :: env where
  "demo_env =
     \<lparr> sha256_hexdigest =
         (\<lambda>s. ''0123456789abcdef0123456789abcdef0123456789abcdef0123456789abcdef''),
       md5_hexdigest = (\<lambda>s. ''md5:'' @ s),
       utcnow_isoformat = ''2024-01-01T00:00:00'',
       embeddings_create = (\<lambda>text. Inl ''Connection error.''),
       sentence_encode = (\<lambda>text. if text = ''goodbye'' then Inr [- 1, 0] else Inr [1, 0]),
       image_open = (\<lambda>path. Inl ''No such file''),
       read_bytes = (\<lambda>path. Inl ''No such file''),
       getsize = (\<lambda>path. Inl ''No such file''),
       librosa_load = (\<lambda>path. Inl ''No such file''),
       librosa_features = (\<lambda>y sr. Inl ''empty signal''),
       hash_distance = (\<lambda>a b. if a = b then Inr 0 else Inr 64),
       ast_parse = (\<lambda>code.
         if code = ''import os''
           then Inr (Node (Other ''Module'') [Node (Import [''os'']) []])
         else if code = ''x = 1''
           then Inr (Node (Other ''Module'') [Node (Other ''Assign'') []])
         else if code = ''class A: pass''
           then Inr (Node (Other ''Module'') [Node (ClassDef ''A'') [Node (Other ''Pass'') []]])
         else if code = ''def f(): pass''
           then Inr (Node (Other ''Module'') [Node (FunctionDef ''f'') [Node (Other ''Pass'') []]])
         else Inl ''invalid syntax (<unknown>, line 1)''),
       ast_dump = (\<lambda>tree. ''Module'') \<rparr>"

text \<open>The fingerprints of \<^verbatim>\<open>def f(:\<close> and \<^verbatim>\<open>def g(:\<close>, which do not parse.\<close>

definition demo_broken_code :: fingerprint where
  "demo_broken_code =
     update_with ''fp_code_0123456789abcdef'' ''code'' ''2024-01-01T00:00:00'' []
       (empty_bundle
          \<lparr> content_hash := Some ''md5:def f(:'',
            line_count := Some 1,
            char_count := Some 7,
            error := Some ''AST parsing failed: invalid syntax (<unknown>, line 1)'' \<rparr>)"

definition demo_broken_query :: fingerprint where
  "demo_broken_query =
     update_with ''fp_code_0123456789abcdef'' ''code'' ''2024-01-01T00:00:00'' []
       (empty_bundle
          \<lparr> content_hash := Some ''md5:def g(:'',
            line_count := Some 1,
            char_count := Some 7,
            error := Some ''AST parsing failed: invalid syntax (<unknown>, line 1)'' \<rparr>)"

text \<open>The fingerprints of the texts \<^verbatim>\<open>hello world\<close> and \<^verbatim>\<open>goodbye\<close>.\<close>

definition demo_text :: fingerprint where
  "demo_text =
     update_with ''fp_text_0123456789abcdef'' ''text'' ''2024-01-01T00:00:00'' []
       (empty_bundle
          \<lparr> content_hash := Some ''md5:hello world'',
            local_embedding := Some [1, 0],
            word_count := Some 2,
            char_count := Some 11,
            error := Some ''Connection error.'' \<rparr>)"

definition demo_text_opposite :: fingerprint where
  "demo_text_opposite =
     update_with ''fp_text_0123456789abcdef'' ''text'' ''2024-01-01T00:00:00'' []
       (empty_bundle
          \<lparr> content_hash := Some ''md5:goodbye'',
            local_embedding := Some [- 1, 0],
            word_count := Some 1,
            char_count := Some 7,
            error := Some ''Connection error.'' \<rparr>)"

text \<open>The fingerprints of the programs \<^verbatim>\<open>x = 1\<close>, \<^verbatim>\<open>class A: pass\<close> and
  \<^verbatim>\<open>def f(): pass\<close>, which parse.\<close>

definition demo_plain_code :: fingerprint where
  "demo_plain_code =
     update_with ''fp_code_0123456789abcdef'' ''code'' ''2024-01-01T00:00:00'' []
       (empty_bundle
          \<lparr> content_hash := Some ''md5:x = 1'',
            token_hash := Some ''md5:x=1'',
            ast_hash := Some ''md5:Module'',
            line_count := Some 1,
            non_empty_lines := Some 1,
            functions_key := Some [],
            classes := Some [],
            imports_key := Some [],
            complexity_score := Some 0 \<rparr>)"

definition demo_class_code :: fingerprint where
  "demo_class_code =
     update_with ''fp_code_0123456789abcdef'' ''code'' ''2024-01-01T00:00:00'' []
       (empty_bundle
          \<lparr> content_hash := Some ''md5:class A: pass'',
            token_hash := Some ''md5:classA:pass'',
            ast_hash := Some ''md5:Module'',
            line_count := Some 1,
            non_empty_lines := Some 1,
            functions_key := Some [],
            classes := Some [''A''],
            imports_key := Some [],
            complexity_score := Some 0 \<rparr>)"

definition demo_function_code :: fingerprint where
  "demo_function_code =
     update_with ''fp_code_0123456789abcdef'' ''code'' ''2024-01-01T00:00:00'' []
       (empty_bundle
          \<lparr> content_hash := Some ''md5:def f(): pass'',
            token_hash := Some ''md5:deff():pass'',
            ast_hash := Some ''md5:Module'',
            line_count := Some 1,
            non_empty_lines := Some 1,
            functions_key := Some [''f''],
            classes := Some [],
            imports_key := Some [],
            complexity_score := Some 0 \<rparr>)"


text \<open>An image and an audio fingerprint as a database holds them.\<close>

definition demo_image :: fingerprint where
  "demo_image =
     update_with ''fp_image_0123456789abcdef'' ''image'' ''2024-01-01T00:00:00'' []
       (empty_bundle
          \<lparr> content_hash := Some ''md5:png'',
            perceptual_hashes := Some [(''phash'', ''c3e1f0783c1e0f87''), (''dhash'', ''0f0f0f0f0f0f0f0f'')],
            dimensions := Some (8, 8),
            mode := Some ''RGB'',
            file_size := Some 192 \<rparr>)"

definition demo_audio :: fingerprint where
  "demo_audio =
     update_with ''fp_audio_0123456789abcdef'' ''audio'' ''2024-01-01T00:00:00'' []
       (empty_bundle
          \<lparr> content_hash := Some ''md5:wav'',
            duration := Some 1,
            sample_rate := Some 22050,
            tempo := Some 120,
            spectral_centroid_mean := Some 1000,
            spectral_rolloff_mean := Some 2000,
            mfcc_features := Some [- 3, 4],
            file_size := Some 44100 \<rparr>)"

section \<open>Properties of the match engine\<close>

lemma mset_insert_desc: "mset (insert_desc x ys) = add_mset x (mset ys)"
  by (induction ys) auto

lemma mset_sort_desc: "mset (sort_desc xs) = mset xs"
  by (induction xs) (auto simp: mset_insert_desc)

lemma set_insert_desc: "set (insert_desc x ys) = insert x (set ys)"
  by (induction ys) auto

lemma set_sort_desc: "set (sort_desc xs) = set xs"
  by (induction xs) (auto simp: set_insert_desc)

lemma py_ge_total: "a \<noteq> NaN \<Longrightarrow> b \<noteq> NaN \<Longrightarrow> \<not> py_lt a b \<Longrightarrow> py_ge a b"
  by (cases a; cases b) auto

lemma py_lt_ge: "py_lt a b \<Longrightarrow> py_ge b a"
  by (cases a; cases b) auto

lemma py_ge_trans: "py_ge a b \<Longrightarrow> py_ge b c \<Longrightarrow> py_ge a c"
  by (cases a; cases b; cases c) auto

lemma sorted_insert_desc:
  "snd x \<noteq> NaN \<Longrightarrow> \<forall>m\<in>set ys. snd m \<noteq> NaN \<Longrightarrow>
   sorted_wrt (\<lambda>a b. py_ge (snd a) (snd b)) ys \<Longrightarrow>
   sorted_wrt (\<lambda>a b. py_ge (snd a) (snd b)) (insert_desc x ys)"
proof (induction ys)
  case Nil
  then show ?case by simp
next
  case (Cons y ys)
  show ?case
  proof (cases "py_lt (snd x) (snd y)")
    case True
    with Cons show ?thesis
      by (auto simp: set_insert_desc py_lt_ge)
  next
    case False
    with Cons have "py_ge (snd x) (snd y)" by (simp add: py_ge_total)
    with Cons False show ?thesis
      by (auto intro: py_ge_trans)
  qed
qed

lemma sorted_sort_desc:
  "\<forall>m\<in>set xs. snd m \<noteq> NaN \<Longrightarrow> sorted_wrt (\<lambda>a b. py_ge (snd a) (snd b)) (sort_desc xs)"
  by (induction xs) (auto simp: sorted_insert_desc set_sort_desc)

text \<open>Stability: the entries of one score keep their order.\<close>

lemma filter_insert_desc:
  "filter (\<lambda>m. snd m = s) (insert_desc x ys) =
     (if snd x = s then x # filter (\<lambda>m. snd m = s) ys else filter (\<lambda>m. snd m = s) ys)"
proof (induction ys)
  case Nil
  show ?case by simp
next
  case (Cons y ys)
  have "\<not> py_lt s s" by (cases s) auto
  with Cons show ?case by auto
qed

lemma filter_sort_desc:
  "filter (\<lambda>m. snd m = s) (sort_desc xs) = filter (\<lambda>m. snd m = s) xs"
  by (induction xs) (auto simp: filter_insert_desc)

lemma collect_matches_eq:
  "collect_matches env fp db t =
     map (\<lambda>d. (d, calculate_similarity env fp d)) (filter (retained env fp t) db)"
  by (induction db) (auto simp: retained_def Let_def)

lemma collect_matches_not_NaN:
  "m \<in> set (collect_matches env fp db t) \<Longrightarrow> snd m \<noteq> NaN"
  by (auto simp: collect_matches_eq retained_def)

text \<open>
  Claim C6. For every query, pool and threshold, the list \<^verbatim>\<open>find_similar_content\<close>
  returns is sorted non-increasing by score; for every score, the entries with that
  score are the pool's retained candidates with that score, in the pool's order (the
  sort is stable); and the entries are, with their scores, exactly the candidates whose
  content kind is the query's and whose score is at least the threshold. A candidate of
  another kind is skipped, and no call raises: the function is total.
\<close>

theorem find_similar_content_sorted_stable:
  "sorted_wrt (\<lambda>a b. py_ge (snd a) (snd b)) (find_similar_content env fp db t)
   \<and> (\<forall>s. map fst (filter (\<lambda>m. snd m = s) (find_similar_content env fp db t)) =
          filter (\<lambda>d. retained env fp t d \<and> calculate_similarity env fp d = s) db)
   \<and> mset (find_similar_content env fp db t) =
       mset (map (\<lambda>d. (d, calculate_similarity env fp d)) (filter (retained env fp t) db))"
proof (intro conjI allI)
  show "sorted_wrt (\<lambda>a b. py_ge (snd a) (snd b)) (find_similar_content env fp db t)"
    unfolding find_similar_content_def
    by (rule sorted_sort_desc) (auto dest: collect_matches_not_NaN)
next
  fix s
  show "map fst (filter (\<lambda>m. snd m = s) (find_similar_content env fp db t)) =
          filter (\<lambda>d. retained env fp t d \<and> calculate_similarity env fp d = s) db"
    unfolding find_similar_content_def filter_sort_desc collect_matches_eq
    by (induction db) auto
next
  show "mset (find_similar_content env fp db t) =
       mset (map (\<lambda>d. (d, calculate_similarity env fp d)) (filter (retained env fp t) db))"
    by (simp add: find_similar_content_def mset_sort_desc collect_matches_eq)
qed

section \<open>Concrete runs of the builder\<close>

lemmas demo_run =
  demo_env_def generate_fingerprint_def generate_id_def update_with_def
  fingerprint_code_def code_try_def fingerprint_text_def text_try_def
  fingerprint_audio_def audio_try_def calculate_complexity_def
  empty_bundle_def feature_bundle.defs fingerprint.defs py_split_def is_space_def

lemma demo_broken_code_built:
  "generate_fingerprint demo_env ''def f(:'' ''code'' [] = Inr demo_broken_code"
  by (simp add: demo_run demo_broken_code_def)

lemma demo_broken_query_built:
  "generate_fingerprint demo_env ''def g(:'' ''code'' [] = Inr demo_broken_query"
  by (simp add: demo_run demo_broken_query_def)

lemma demo_text_built:
  "generate_fingerprint demo_env ''hello world'' ''text'' [] = Inr demo_text"
  by (simp add: demo_run demo_text_def)

lemma demo_text_opposite_built:
  "generate_fingerprint demo_env ''goodbye'' ''text'' [] = Inr demo_text_opposite"
  by (simp add: demo_run demo_text_opposite_def)

lemma demo_plain_code_built:
  "generate_fingerprint demo_env ''x = 1'' ''code'' [] = Inr demo_plain_code"
  by (simp add: demo_run demo_plain_code_def)

lemma demo_class_code_built:
  "generate_fingerprint demo_env ''class A: pass'' ''code'' [] = Inr demo_class_code"
  by (simp add: demo_run demo_class_code_def)

lemma demo_function_code_built:
  "generate_fingerprint demo_env ''def f(): pass'' ''code'' [] = Inr demo_function_code"
  by (simp add: demo_run demo_function_code_def)


lemmas demo_fields =
  update_with_def empty_bundle_def feature_bundle.defs fingerprint.defs

lemmas score_run =
  calculate_similarity_def code_similarity_def code_similarity_value_def
  text_similarity_def audio_similarity_def image_similarity_def
  cosine_def np_dot_def np_norm_def np_divide_def

section \<open>Cross-kind scores\<close>

text \<open>
  Claim C2 says that the score of two bundles of different content kinds is exactly 0.0.
  The code scorer compares \<^verbatim>\<open>fp1.get("ast_hash")\<close> with \<^verbatim>\<open>fp2.get("ast_hash")\<close>, and the
  token hashes likewise: two absent hashes are equal. The fingerprint of a program that
  does not parse has neither hash, and a text fingerprint has none either, so the score
  of this code fingerprint against this text fingerprint is 0.4 + 0.3 = 0.7.
\<close>

theorem calculate_similarity_cross_kind_nonzero:
  "generate_fingerprint demo_env ''def f(:'' ''code'' [] = Inr demo_broken_code
   \<and> generate_fingerprint demo_env ''hello world'' ''text'' [] = Inr demo_text
   \<and> content_type demo_broken_code \<noteq> content_type demo_text
   \<and> calculate_similarity demo_env demo_broken_code demo_text = Fl (7 / 10)"
proof (intro conjI)
  show "generate_fingerprint demo_env ''def f(:'' ''code'' [] = Inr demo_broken_code"
    by (rule demo_broken_code_built)
  show "generate_fingerprint demo_env ''hello world'' ''text'' [] = Inr demo_text"
    by (rule demo_text_built)
  show "content_type demo_broken_code \<noteq> content_type demo_text"
    by (simp add: demo_broken_code_def demo_text_def demo_fields)
  show "calculate_similarity demo_env demo_broken_code demo_text = Fl (7 / 10)"
    by (simp add: score_run demo_broken_code_def demo_text_def demo_fields)
qed

section \<open>Candidates without features\<close>

text \<open>
  Claim C4 says that a candidate whose bundle lacks the features its scorer needs scores
  0 and is excluded by every positive threshold. The candidate here is the fingerprint of
  a program that does not parse: it has no structural hash, no token hash and no symbol
  names. The query is the fingerprint of another program that does not parse. The code
  scorer gives the candidate 0.7 (the same comparison of two absent hashes as in the
  cross-kind case), and the threshold 0.5 keeps it.
\<close>

theorem find_similar_content_keeps_featureless_code:
  "generate_fingerprint demo_env ''def g(:'' ''code'' [] = Inr demo_broken_query
   \<and> generate_fingerprint demo_env ''def f(:'' ''code'' [] = Inr demo_broken_code
   \<and> ast_hash demo_broken_code = None
   \<and> token_hash demo_broken_code = None
   \<and> functions_key demo_broken_code = None
   \<and> classes demo_broken_code = None
   \<and> find_similar_content demo_env demo_broken_query [demo_broken_code] (Fl (1 / 2)) =
       [(demo_broken_code, Fl (7 / 10))]"
proof (intro conjI)
  show "generate_fingerprint demo_env ''def g(:'' ''code'' [] = Inr demo_broken_query"
    by (rule demo_broken_query_built)
  show "generate_fingerprint demo_env ''def f(:'' ''code'' [] = Inr demo_broken_code"
    by (rule demo_broken_code_built)
  show "find_similar_content demo_env demo_broken_query [demo_broken_code] (Fl (1 / 2)) =
       [(demo_broken_code, Fl (7 / 10))]"
    by (simp add: find_similar_content_def score_run demo_broken_code_def
        demo_broken_query_def demo_fields)
qed (simp_all add: demo_broken_code_def demo_fields)

section \<open>The code extractor\<close>

lemma import_modules_raises:
  "kind_of n = Import names \<Longrightarrow> n \<in> set ns \<Longrightarrow> import_modules ns = Inl import_has_no_module"
proof (induction ns)
  case Nil
  then show ?case by simp
next
  case (Cons m ms)
  then show ?case by (cases "kind_of m") auto
qed

lemma import_modules_returns:
  "\<forall>n\<in>set ns. \<forall>names. kind_of n \<noteq> Import names \<Longrightarrow> import_modules ns = Inr []"
proof (induction ns)
  case Nil
  then show ?case by simp
next
  case (Cons m ms)
  then show ?case by (cases "kind_of m") auto
qed

text \<open>
  What the extractor does on a program that parses: the full bundle when the tree has no
  \<^verbatim>\<open>ast.Import\<close> node (and \<^verbatim>\<open>ast.dump\<close> returns, as \<open>ast_dump\<close> always does here),
  the fallback bundle of a parse failure when it has one.
\<close>

lemma fingerprint_code_without_import:
  assumes "ast_parse env code = Inr tree"
    and "\<forall>n\<in>set (walk [tree]). \<forall>names. kind_of n \<noteq> Import names"
  shows "error (fingerprint_code env code) = None
     \<and> ast_hash (fingerprint_code env code) = Some (md5_hexdigest env (ast_dump env tree))
     \<and> functions_key (fingerprint_code env code) = Some (function_names (walk [tree]))
     \<and> classes (fingerprint_code env code) = Some (class_names (walk [tree]))
     \<and> complexity_score (fingerprint_code env code) = Some (calculate_complexity tree)"
  using assms import_modules_returns [of "walk [tree]"]
  by (simp add: fingerprint_code_def code_try_def Let_def empty_bundle_def)

lemma fingerprint_code_with_import:
  assumes "ast_parse env code = Inr tree"
    and "n \<in> set (walk [tree])" and "kind_of n = Import names"
  shows "fingerprint_code env code =
     empty_bundle
       \<lparr> content_hash := Some (md5_hexdigest env code),
         line_count := Some (length (split_on (CHR 0x0A) [] code)),
         char_count := Some (length code),
         error := Some (''AST parsing failed: '' @ import_has_no_module) \<rparr>"
  using assms import_modules_raises [of n names "walk [tree]"]
  by (simp add: fingerprint_code_def code_try_def)

text \<open>
  Claim C9 says that every program that parses gets the full bundle, with no error
  indicator, and that the fallback bundle is produced only when parsing fails. The
  program \<^verbatim>\<open>import os\<close> parses, to a module with one \<^verbatim>\<open>ast.Import\<close> node. The list
  comprehension for \<^verbatim>\<open>imports\<close> reads \<^verbatim>\<open>node.module\<close> of that node, which raises
  AttributeError inside the \<^verbatim>\<open>try\<close>; the handler returns the fallback bundle, tagged
  as a parse failure, without hashes and symbol names.
\<close>

theorem fingerprint_code_import_falls_back:
  "ast_parse demo_env ''import os'' = Inr (Node (Other ''Module'') [Node (Import [''os'']) []])
   \<and> fingerprint_code demo_env ''import os'' =
       empty_bundle
         \<lparr> content_hash := Some ''md5:import os'',
           line_count := Some 1,
           char_count := Some 9,
           error := Some (''AST parsing failed: '' @ import_has_no_module) \<rparr>
   \<and> ast_hash (fingerprint_code demo_env ''import os'') = None
   \<and> token_hash (fingerprint_code demo_env ''import os'') = None
   \<and> functions_key (fingerprint_code demo_env ''import os'') = None"
  by (simp add: demo_env_def fingerprint_code_def code_try_def empty_bundle_def)

section \<open>The code scorer\<close>

lemma jaccard_eq:
  "jaccard A B = real (card (A \<inter> B)) / real (max (card (A \<union> B)) 1)"
  by (simp add: jaccard_def max_def)

text \<open>What \<^verbatim>\<open>_code_similarity\<close> computes: the Jaccard term is over the function names.\<close>

lemma code_similarity_formula:
  "code_similarity fp1 fp2 =
     Fl (0.4 * (if ast_hash fp1 = ast_hash fp2 then 1 else 0) +
         0.3 * (if token_hash fp1 = token_hash fp2 then 1 else 0) +
         0.3 * jaccard (set (case functions_key fp1 of None \<Rightarrow> [] | Some f \<Rightarrow> f))
                       (set (case functions_key fp2 of None \<Rightarrow> [] | Some f \<Rightarrow> f)))"
  by (simp add: code_similarity_def code_similarity_value_def Let_def jaccard_eq)

lemma code_similarity_spec_without_classes:
  assumes c1: "set (case classes fp1 of None \<Rightarrow> [] | Some c \<Rightarrow> c) = {}"
    and c2: "set (case classes fp2 of None \<Rightarrow> [] | Some c \<Rightarrow> c) = {}"
  shows "code_similarity_spec fp1 fp2 = code_similarity fp1 fp2"
proof -
  have "symbol_names fp1 = set (case functions_key fp1 of None \<Rightarrow> [] | Some f \<Rightarrow> f)"
    unfolding symbol_names_def c1 by (rule Un_empty_right)
  moreover
  have "symbol_names fp2 = set (case functions_key fp2 of None \<Rightarrow> [] | Some f \<Rightarrow> f)"
    unfolding symbol_names_def c2 by (rule Un_empty_right)
  ultimately show ?thesis
    by (simp only: code_similarity_formula code_similarity_spec_def)
qed

text \<open>
  Claim C10 gives the third term as 0.3 times the Jaccard similarity of the extracted
  function/class name sets, and the comment in \<^verbatim>\<open>_code_similarity\<close> says
  "Function/class name similarity". The code reads the key \<^verbatim>\<open>functions\<close> only. For
  the program \<^verbatim>\<open>class A: pass\<close> compared with itself the code's third term is 0 (no
  function names) and the score 0.7, where the claim's formula gives 0.3 for the shared
  class name and the score 1.
\<close>

theorem code_similarity_ignores_classes:
  "generate_fingerprint demo_env ''class A: pass'' ''code'' [] = Inr demo_class_code
   \<and> classes demo_class_code = Some [''A'']
   \<and> code_similarity demo_class_code demo_class_code = Fl (7 / 10)
   \<and> code_similarity_spec demo_class_code demo_class_code = Fl 1"
proof (intro conjI)
  show "generate_fingerprint demo_env ''class A: pass'' ''code'' [] = Inr demo_class_code"
    by (rule demo_class_code_built)
  show "classes demo_class_code = Some [''A'']"
    by (simp add: demo_class_code_def demo_fields)
  show "code_similarity demo_class_code demo_class_code = Fl (7 / 10)"
    by (simp add: score_run demo_class_code_def demo_fields)
  show "code_similarity_spec demo_class_code demo_class_code = Fl 1"
    by (simp add: code_similarity_spec_def symbol_names_def jaccard_def
        demo_class_code_def demo_fields)
qed


section \<open>Ranges of the scorers\<close>


lemma sumsq_nonneg: "0 \<le> sum_list (map (\<lambda>x. x * x) (a::real list))"
  by (induction a) auto

lemma np_norm_nonneg: "0 \<le> np_norm a"
  by (simp add: np_norm_def sumsq_nonneg)

lemma np_norm_Cons: "np_norm (x # a) = sqrt (x * x + np_norm a * np_norm a)"
  by (simp add: np_norm_def sumsq_nonneg)

lemma two_dim:
  fixes a b c d :: real
  assumes "0 \<le> c" "0 \<le> d"
  shows "\<bar>a * b\<bar> + c * d \<le> sqrt (a * a + c * c) * sqrt (b * b + d * d)"
proof -
  have "(\<bar>a * b\<bar> + c * d)\<^sup>2 \<le> (a * a + c * c) * (b * b + d * d)"
  proof -
    have "0 \<le> (\<bar>a\<bar> * d - \<bar>b\<bar> * c)\<^sup>2" by simp
    then have "2 * (\<bar>a\<bar> * \<bar>b\<bar>) * (c * d) \<le> a * a * (d * d) + b * b * (c * c)"
      by (simp add: power2_eq_square algebra_simps)
    then show ?thesis
      by (simp add: power2_eq_square algebra_simps abs_mult)
  qed
  then have "\<bar>a * b\<bar> + c * d \<le> sqrt ((a * a + c * c) * (b * b + d * d))"
    by (rule real_le_rsqrt)
  then show ?thesis by (simp add: real_sqrt_mult)
qed

lemma cauchy_schwarz_list:
  "length a = length b \<Longrightarrow> \<bar>sum_list (map2 (*) a b)\<bar> \<le> np_norm a * np_norm b"
proof (induction a b rule: list_induct2)
  case Nil
  show ?case by (simp add: np_norm_def)
next
  case (Cons x xs y ys)
  have "\<bar>x * y + sum_list (map2 (*) xs ys)\<bar> \<le> \<bar>x * y\<bar> + np_norm xs * np_norm ys"
    using Cons.IH by linarith
  also have "\<dots> \<le> sqrt (x * x + np_norm xs * np_norm xs) * sqrt (y * y + np_norm ys * np_norm ys)"
    by (rule two_dim) (simp_all add: np_norm_nonneg)
  finally show ?case by (simp add: np_norm_Cons)
qed

lemma cosine_range:
  "cosine a b = Inr s \<Longrightarrow> s = NaN \<or> (\<exists>r. s = Fl r \<and> - 1 \<le> r \<and> r \<le> 1)"
proof -
  assume c: "cosine a b = Inr s"
  then have len: "length a = length b"
    by (auto simp: cosine_def np_dot_def split: if_splits)
  let ?d = "sum_list (map2 (*) a b)"
  let ?n = "np_norm a * np_norm b"
  from c len have s: "s = np_divide ?d ?n"
    by (simp add: cosine_def np_dot_def)
  have le: "\<bar>?d\<bar> \<le> ?n" using len by (rule cauchy_schwarz_list)
  show ?thesis
  proof (cases "?n = 0")
    case True
    with s show ?thesis by (simp add: np_divide_def)
  next
    case False
    have "0 \<le> ?n" by (simp add: np_norm_nonneg)
    with False have pos: "0 < ?n" by linarith
    from le pos have "- 1 \<le> ?d / ?n" "?d / ?n \<le> 1"
      by (simp_all add: pos_le_divide_eq pos_divide_le_eq abs_le_iff) 
    with s False show ?thesis by (simp add: np_divide_def)
  qed
qed

lemma cosine_zero_norm:
  "length a = length b \<Longrightarrow> np_norm a * np_norm b = 0 \<Longrightarrow> sum_list (map2 (*) a b) = 0"
proof -
  assume len: "length a = length b" and z: "np_norm a * np_norm b = 0"
  have "\<bar>sum_list (map2 (*) a b)\<bar> \<le> np_norm a * np_norm b"
    using len by (rule cauchy_schwarz_list)
  then have "\<bar>sum_list (map2 (*) a b)\<bar> \<le> 0" by (simp only: z)
  then show ?thesis by simp
qed

lemma cosine_self:
  "np_norm a \<noteq> 0 \<Longrightarrow> cosine a a = Inr (Fl 1)"
proof -
  assume nz: "np_norm a \<noteq> 0"
  have "sum_list (map2 (*) a a) = sum_list (map (\<lambda>x. x * x) a)"
    by (induction a) auto
  also have "\<dots> = np_norm a * np_norm a"
    by (simp add: np_norm_def sumsq_nonneg)
  finally show ?thesis using nz
    by (simp add: cosine_def np_dot_def np_divide_def)
qed

lemma cosine_or_zero_range:
  "(case cosine a b of Inr s \<Rightarrow> s | Inl e \<Rightarrow> Fl 0) = NaN \<or>
   (\<exists>r. (case cosine a b of Inr s \<Rightarrow> s | Inl e \<Rightarrow> Fl 0) = Fl r \<and> - 1 \<le> r \<and> r \<le> 1)"
proof (cases "cosine a b")
  case (Inl e)
  then show ?thesis by simp
next
  case (Inr s)
  with cosine_range [OF Inr] show ?thesis by simp
qed

lemma text_similarity_range:
  "text_similarity fp1 fp2 = NaN \<or> (\<exists>r. text_similarity fp1 fp2 = Fl r \<and> - 1 \<le> r \<and> r \<le> 1)"
proof (cases "openai_embedding fp1")
  case None
  then show ?thesis
    using cosine_or_zero_range by (simp add: text_similarity_def split: option.splits)
next
  case (Some a)
  then show ?thesis
    using cosine_or_zero_range by (simp add: text_similarity_def split: option.splits)
qed

lemma audio_similarity_range:
  "audio_similarity fp1 fp2 = NaN \<or> (\<exists>r. audio_similarity fp1 fp2 = Fl r \<and> - 1 \<le> r \<and> r \<le> 1)"
  using cosine_or_zero_range by (simp add: audio_similarity_def Let_def)

lemma hash_similarities_range:
  "hash_similarities env h1 h2 ts = Inr sims \<Longrightarrow> \<forall>s\<in>set sims. 0 \<le> s \<and> s \<le> 1"
proof (induction ts arbitrary: sims)
  case Nil
  then show ?case by simp
next
  case (Cons t ts)
  then show ?case
    by (auto split: option.splits sum.splits)
qed

lemma fold_max_range:
  "lo \<le> x \<Longrightarrow> x \<le> hi \<Longrightarrow> \<forall>s\<in>set xs. lo \<le> s \<and> s \<le> hi \<Longrightarrow>
   lo \<le> fold max xs (x::real) \<and> fold max xs x \<le> hi"
  by (induction xs arbitrary: x) auto

lemma py_max_range:
  "xs \<noteq> [] \<Longrightarrow> \<forall>s\<in>set xs. 0 \<le> s \<and> s \<le> 1 \<Longrightarrow> 0 \<le> py_max xs \<and> py_max xs \<le> 1"
  by (cases xs) (auto simp: fold_max_range)

lemma image_similarity_range:
  "\<exists>r. image_similarity env fp1 fp2 = Fl r \<and> 0 \<le> r \<and> r \<le> 1"
proof -
  define h1 where "h1 = (case perceptual_hashes fp1 of None \<Rightarrow> [] | Some h \<Rightarrow> h)"
  define h2 where "h2 = (case perceptual_hashes fp2 of None \<Rightarrow> [] | Some h \<Rightarrow> h)"
  define r where "r = hash_similarities env h1 h2 [''phash'', ''dhash'', ''ahash'', ''whash'']"
  have eq: "image_similarity env fp1 fp2 =
      (if h1 = [] \<or> h2 = [] then Fl 0
       else (case r of Inl e \<Rightarrow> Fl 0
             | Inr sims \<Rightarrow> if sims = [] then Fl 0 else Fl (py_max sims)))"
    by (simp add: image_similarity_def Let_def h1_def h2_def r_def)
  show ?thesis
  proof (cases r)
    case (Inl e)
    with eq show ?thesis by simp
  next
    case (Inr sims)
    then have "\<forall>s\<in>set sims. 0 \<le> s \<and> s \<le> 1"
      unfolding r_def by (rule hash_similarities_range)
    then have "sims \<noteq> [] \<Longrightarrow> 0 \<le> py_max sims \<and> py_max sims \<le> 1"
      by (simp add: py_max_range)
    with eq Inr show ?thesis by auto
  qed
qed

lemma func_sim_range:
  "0 \<le> real (card (set xs \<inter> set ys)) / real (max (card (set xs \<union> set ys)) 1) \<and>
   real (card (set xs \<inter> set ys)) / real (max (card (set xs \<union> set ys)) 1) \<le> 1"
proof -
  have "card (set xs \<inter> set ys) \<le> card (set xs \<union> set ys)"
    by (rule card_mono) auto
  then have "card (set xs \<inter> set ys) \<le> max (card (set xs \<union> set ys)) 1" by simp
  then show ?thesis by (simp add: divide_le_eq)
qed

lemma code_similarity_value_range:
  "0 \<le> code_similarity_value fp1 fp2 \<and> code_similarity_value fp1 fp2 \<le> 1"
proof -
  define f where "f = real (card (set (case functions_key fp1 of None \<Rightarrow> [] | Some f \<Rightarrow> f) \<inter>
        set (case functions_key fp2 of None \<Rightarrow> [] | Some f \<Rightarrow> f))) /
      real (max (card (set (case functions_key fp1 of None \<Rightarrow> [] | Some f \<Rightarrow> f) \<union>
        set (case functions_key fp2 of None \<Rightarrow> [] | Some f \<Rightarrow> f))) 1)"
  have f: "0 \<le> f \<and> f \<le> 1" unfolding f_def by (rule func_sim_range)
  have "code_similarity_value fp1 fp2 =
      0.4 * (if ast_hash fp1 = ast_hash fp2 then 1 else 0) +
      0.3 * (if token_hash fp1 = token_hash fp2 then 1 else 0) + 0.3 * f"
    by (simp add: code_similarity_value_def Let_def f_def)
  with f show ?thesis by auto
qed

lemma calculate_similarity_le_1:
  "calculate_similarity env fp1 fp2 = Fl r \<Longrightarrow> r \<le> 1"
  using text_similarity_range [of fp1 fp2] audio_similarity_range [of fp1 fp2]
    image_similarity_range [of env fp1 fp2] code_similarity_value_range [of fp1 fp2]
  by (auto simp: calculate_similarity_def code_similarity_def split: if_splits)

text \<open>
  Claim C3 says that every scorer returns a value in [0,1]. The text and audio scorers
  return a cosine similarity, with no clamp: the local embeddings of the two texts
  below point in opposite directions and the score is -1.
\<close>

theorem text_similarity_negative:
  "generate_fingerprint demo_env ''hello world'' ''text'' [] = Inr demo_text
   \<and> generate_fingerprint demo_env ''goodbye'' ''text'' [] = Inr demo_text_opposite
   \<and> content_type demo_text = content_type demo_text_opposite
   \<and> calculate_similarity demo_env demo_text demo_text_opposite = Fl (- 1)
   \<and> \<not> (\<exists>r. text_similarity demo_text demo_text_opposite = Fl r \<and> 0 \<le> r \<and> r \<le> 1)"
proof (intro conjI)
  show "generate_fingerprint demo_env ''hello world'' ''text'' [] = Inr demo_text"
    by (rule demo_text_built)
  show "generate_fingerprint demo_env ''goodbye'' ''text'' [] = Inr demo_text_opposite"
    by (rule demo_text_opposite_built)
  show "content_type demo_text = content_type demo_text_opposite"
    by (simp add: demo_text_def demo_text_opposite_def demo_fields)
  show "calculate_similarity demo_env demo_text demo_text_opposite = Fl (- 1)"
    by (simp add: score_run demo_text_def demo_text_opposite_def demo_fields)
  show "\<not> (\<exists>r. text_similarity demo_text demo_text_opposite = Fl r \<and> 0 \<le> r \<and> r \<le> 1)"
    by (simp add: score_run demo_text_def demo_text_opposite_def demo_fields)
qed

text \<open>
  Claim C3, amended. For every pair of fingerprints, the image scorer and the code scorer
  return a value in [0,1]; the text scorer and the audio scorer return a value in [-1,1],
  or NaN (when a vector they divide by has norm 0).
\<close>

theorem similarity_scorer_ranges:
  "(\<exists>r. image_similarity env fp1 fp2 = Fl r \<and> 0 \<le> r \<and> r \<le> 1)
   \<and> (\<exists>r. code_similarity fp1 fp2 = Fl r \<and> 0 \<le> r \<and> r \<le> 1)
   \<and> (text_similarity fp1 fp2 = NaN \<or>
        (\<exists>r. text_similarity fp1 fp2 = Fl r \<and> - 1 \<le> r \<and> r \<le> 1))
   \<and> (audio_similarity fp1 fp2 = NaN \<or>
        (\<exists>r. audio_similarity fp1 fp2 = Fl r \<and> - 1 \<le> r \<and> r \<le> 1))"
proof (intro conjI)
  show "\<exists>r. image_similarity env fp1 fp2 = Fl r \<and> 0 \<le> r \<and> r \<le> 1"
    by (rule image_similarity_range)
  show "\<exists>r. code_similarity fp1 fp2 = Fl r \<and> 0 \<le> r \<and> r \<le> 1"
    using code_similarity_value_range [of fp1 fp2] by (simp add: code_similarity_def)
  show "text_similarity fp1 fp2 = NaN \<or>
        (\<exists>r. text_similarity fp1 fp2 = Fl r \<and> - 1 \<le> r \<and> r \<le> 1)"
    by (rule text_similarity_range)
  show "audio_similarity fp1 fp2 = NaN \<or>
        (\<exists>r. audio_similarity fp1 fp2 = Fl r \<and> - 1 \<le> r \<and> r \<le> 1)"
    by (rule audio_similarity_range)
qed

section \<open>Thresholds\<close>

lemma calculate_similarity_ge_0:
  "content_type fp1 \<noteq> ''text'' \<Longrightarrow> content_type fp1 \<noteq> ''audio'' \<Longrightarrow>
   \<exists>r. calculate_similarity env fp1 fp2 = Fl r \<and> 0 \<le> r"
  using image_similarity_range [of env fp1 fp2] code_similarity_value_range [of fp1 fp2]
  by (auto simp: calculate_similarity_def code_similarity_def)

lemma calculate_similarity_ge_minus_1:
  "calculate_similarity env fp1 fp2 = Fl r \<Longrightarrow> - 1 \<le> r"
  using text_similarity_range [of fp1 fp2] audio_similarity_range [of fp1 fp2]
    image_similarity_range [of env fp1 fp2] code_similarity_value_range [of fp1 fp2]
  by (auto simp: calculate_similarity_def code_similarity_def split: if_splits)

lemma find_similar_content_mset:
  "mset (map fst (find_similar_content env fp db t)) = mset (filter (retained env fp t) db)"
proof -
  have "mset (map fst (find_similar_content env fp db t)) =
        image_mset fst (mset (find_similar_content env fp db t))"
    by simp
  also have "\<dots> = image_mset fst (mset (collect_matches env fp db t))"
    by (simp only: find_similar_content_def mset_sort_desc)
  also have "\<dots> = mset (filter (retained env fp t) db)"
    by (simp add: collect_matches_eq image_mset.compositionality comp_def)
  finally show ?thesis .
qed

lemma filter_cong_set: "(\<And>x. x \<in> set xs \<Longrightarrow> P x = Q x) \<Longrightarrow> filter P xs = filter Q xs"
  by (induction xs) auto

text \<open>
  Claim C7 says that a threshold of at most 0 returns every candidate of the query's
  kind. The candidate below has the query's kind and the score -1 (the cosine of two
  opposite embeddings), and the threshold 0 drops it.
\<close>

theorem threshold_zero_drops_candidate:
  "content_type demo_text_opposite = content_type demo_text
   \<and> find_similar_content demo_env demo_text [demo_text_opposite] (Fl 0) = []"
  by (simp add: find_similar_content_def score_run demo_text_def demo_text_opposite_def
      demo_fields)

text \<open>The three bounds, with the scores as the model computes them.\<close>

lemma threshold_bounds_exact:
  "(1 < t \<longrightarrow> find_similar_content env fp db (Fl t) = [])
   \<and> (t \<le> 0 \<and> content_type fp \<noteq> ''text'' \<and> content_type fp \<noteq> ''audio'' \<longrightarrow>
        mset (map fst (find_similar_content env fp db (Fl t))) =
        mset (filter (\<lambda>d. content_type d = content_type fp) db))
   \<and> (t \<le> - 1 \<longrightarrow>
        mset (map fst (find_similar_content env fp db (Fl t))) =
        mset (filter (\<lambda>d. content_type d = content_type fp \<and>
                          calculate_similarity env fp d \<noteq> NaN) db))"
proof (intro conjI impI)
  assume t: "1 < t"
  have "\<not> retained env fp (Fl t) d" for d
  proof (cases "calculate_similarity env fp d")
    case NaN
    then show ?thesis by (simp add: retained_def)
  next
    case (Fl r)
    with calculate_similarity_le_1 [OF Fl] t show ?thesis by (simp add: retained_def)
  qed
  then have "filter (retained env fp (Fl t)) db = []" by simp
  then show "find_similar_content env fp db (Fl t) = []"
    by (simp add: find_similar_content_def collect_matches_eq)
next
  assume a: "t \<le> 0 \<and> content_type fp \<noteq> ''text'' \<and> content_type fp \<noteq> ''audio''"
  have "retained env fp (Fl t) d = (content_type d = content_type fp)" for d
  proof -
    from a obtain r where "calculate_similarity env fp d = Fl r" and "0 \<le> r"
      using calculate_similarity_ge_0 [of fp env d] by auto
    with a show ?thesis by (simp add: retained_def)
  qed
  then have "filter (retained env fp (Fl t)) db =
             filter (\<lambda>d. content_type d = content_type fp) db"
    by (intro filter_cong_set) simp
  then show "mset (map fst (find_similar_content env fp db (Fl t))) =
        mset (filter (\<lambda>d. content_type d = content_type fp) db)"
    by (simp only: find_similar_content_mset)
next
  assume t: "t \<le> - 1"
  have "retained env fp (Fl t) d =
        (content_type d = content_type fp \<and> calculate_similarity env fp d \<noteq> NaN)" for d
  proof (cases "calculate_similarity env fp d")
    case NaN
    then show ?thesis by (simp add: retained_def)
  next
    case (Fl r)
    with calculate_similarity_ge_minus_1 [OF Fl] t show ?thesis by (simp add: retained_def)
  qed
  then have "filter (retained env fp (Fl t)) db =
             filter (\<lambda>d. content_type d = content_type fp \<and>
                          calculate_similarity env fp d \<noteq> NaN) db"
    by (intro filter_cong_set) simp
  then show "mset (map fst (find_similar_content env fp db (Fl t))) =
        mset (filter (\<lambda>d. content_type d = content_type fp \<and>
                          calculate_similarity env fp d \<noteq> NaN) db)"
    by (simp only: find_similar_content_mset)
qed

text \<open>
  Claim C7, amended. For a query whose kind is not text or audio (the image scorer and
  the code scorer stay in [0,1]): a threshold above 1 returns the empty list, and a
  threshold of at most 0 returns every candidate of the query's kind. For a text or audio
  query the score is a cosine, and with the cosine computed in exact arithmetic (float64
  rounding is not modelled: a rounded cosine can pass 1 or -1 in the last place): a
  threshold above 1 returns the empty list, and a threshold of at most -1 returns every
  candidate of the query's kind whose score is not NaN. (For a text or audio query and a
  threshold in (-1, 0], the candidates with a smaller cosine are dropped.)
\<close>

theorem find_similar_content_threshold_bounds:
  "(content_type fp \<noteq> ''text'' \<and> content_type fp \<noteq> ''audio'' \<longrightarrow>
      (1 < t \<longrightarrow> find_similar_content env fp db (Fl t) = [])
      \<and> (t \<le> 0 \<longrightarrow>
           mset (map fst (find_similar_content env fp db (Fl t))) =
           mset (filter (\<lambda>d. content_type d = content_type fp) db)))
   \<and> ((content_type fp = ''text'' \<or> content_type fp = ''audio'') \<longrightarrow>
      (1 < t \<longrightarrow> find_similar_content env fp db (Fl t) = [])
      \<and> (t \<le> - 1 \<longrightarrow>
           mset (map fst (find_similar_content env fp db (Fl t))) =
           mset (filter (\<lambda>d. content_type d = content_type fp \<and>
                             calculate_similarity env fp d \<noteq> NaN) db)))"
  using threshold_bounds_exact [of t env fp db] by blast

theorem find_similar_content_threshold_bounds_witness:
  "find_similar_content demo_env demo_text [demo_text_opposite] (Fl 2) = []
   \<and> find_similar_content demo_env demo_plain_code [demo_class_code] (Fl 2) = []
   \<and> mset (map fst (find_similar_content demo_env demo_plain_code
              [demo_class_code, demo_text] (Fl 0))) = {#demo_class_code#}
   \<and> mset (map fst (find_similar_content demo_env demo_text
              [demo_text_opposite, demo_plain_code] (Fl (- 1)))) = {#demo_text_opposite#}"
proof (intro conjI)
  have "content_type demo_text = ''text'' \<and> (1::real) < 2"
    by (simp add: demo_text_def demo_fields)
  with find_similar_content_threshold_bounds [of demo_text 2 demo_env "[demo_text_opposite]"]
  show "find_similar_content demo_env demo_text [demo_text_opposite] (Fl 2) = []"
    by blast
next
  have "content_type demo_plain_code \<noteq> ''text'' \<and> content_type demo_plain_code \<noteq> ''audio''
        \<and> (1::real) < 2"
    by (simp add: demo_plain_code_def demo_fields)
  with find_similar_content_threshold_bounds
        [of demo_plain_code 2 demo_env "[demo_class_code]"]
  show "find_similar_content demo_env demo_plain_code [demo_class_code] (Fl 2) = []"
    by blast
next
  have "content_type demo_plain_code \<noteq> ''text'' \<and> content_type demo_plain_code \<noteq> ''audio''
        \<and> (0::real) \<le> 0"
    by (simp add: demo_plain_code_def demo_fields)
  with find_similar_content_threshold_bounds
        [of demo_plain_code 0 demo_env "[demo_class_code, demo_text]"]
  have "mset (map fst (find_similar_content demo_env demo_plain_code
              [demo_class_code, demo_text] (Fl 0))) =
        mset (filter (\<lambda>d. content_type d = content_type demo_plain_code)
              [demo_class_code, demo_text])"
    by blast
  then show "mset (map fst (find_similar_content demo_env demo_plain_code
              [demo_class_code, demo_text] (Fl 0))) = {#demo_class_code#}"
    by (simp add: demo_plain_code_def demo_class_code_def demo_text_def demo_fields)
next
  have "content_type demo_text = ''text'' \<and> (- 1::real) \<le> - 1"
    by (simp add: demo_text_def demo_fields)
  with find_similar_content_threshold_bounds
        [of demo_text "- 1" demo_env "[demo_text_opposite, demo_plain_code]"]
  have "mset (map fst (find_similar_content demo_env demo_text
              [demo_text_opposite, demo_plain_code] (Fl (- 1)))) =
        mset (filter (\<lambda>d. content_type d = content_type demo_text \<and>
                          calculate_similarity demo_env demo_text d \<noteq> NaN)
              [demo_text_opposite, demo_plain_code])"
    by blast
  then show "mset (map fst (find_similar_content demo_env demo_text
              [demo_text_opposite, demo_plain_code] (Fl (- 1)))) = {#demo_text_opposite#}"
    by (simp add: score_run demo_plain_code_def demo_text_opposite_def demo_text_def
        demo_fields)
qed

section \<open>Self-similarity\<close>

lemma np_norm_nonzero: "\<exists>x\<in>set v. x \<noteq> 0 \<Longrightarrow> np_norm v \<noteq> 0"
proof -
  assume nz: "\<exists>x\<in>set v. x \<noteq> 0"
  have "sum_list (map (\<lambda>x. x * x) v) = 0 \<longleftrightarrow> (\<forall>y\<in>set (map (\<lambda>x. x * x) v). y = 0)"
    by (rule sum_list_nonneg_eq_0_iff) auto
  with nz have "sum_list (map (\<lambda>x. x * x) v) \<noteq> 0" by auto
  then show ?thesis by (simp add: np_norm_def)
qed

lemma hash_similarities_self:
  assumes "\<forall>t\<in>set ts. \<forall>h. map_of hs t = Some h \<longrightarrow> hash_distance env h h = Inr 0"
  shows "hash_similarities env hs hs ts =
           Inr (map (\<lambda>t. 1) (filter (\<lambda>t. map_of hs t \<noteq> None) ts))"
  using assms by (induction ts) (auto split: option.splits)

lemma py_max_ones: "xs \<noteq> [] \<Longrightarrow> py_max (map (\<lambda>t. 1) xs) = 1"
proof -
  have "fold max (map (\<lambda>t. 1) ys) (1::real) = 1" for ys :: "'a list"
    by (induction ys) auto
  then show "xs \<noteq> [] \<Longrightarrow> py_max (map (\<lambda>t. 1) xs) = 1"
    by (cases xs) auto
qed

lemma image_similarity_self:
  assumes hs: "perceptual_hashes b = Some hs"
    and key: "\<exists>t\<in>set [''phash'', ''dhash'', ''ahash'', ''whash'']. map_of hs t \<noteq> None"
    and dist: "\<forall>t\<in>set [''phash'', ''dhash'', ''ahash'', ''whash''].
                 \<forall>h. map_of hs t = Some h \<longrightarrow> hash_distance env h h = Inr 0"
  shows "image_similarity env b b = Fl 1"
proof -
  let ?ts = "[''phash'', ''dhash'', ''ahash'', ''whash'']"
  from key have ne: "hs \<noteq> []" by auto
  from key have f: "filter (\<lambda>t. map_of hs t \<noteq> None) ?ts \<noteq> []"
    by (simp only: filter_empty_conv) blast
  have "image_similarity env b b =
        (case hash_similarities env hs hs ?ts of
           Inl e \<Rightarrow> Fl 0
         | Inr sims \<Rightarrow> if sims = [] then Fl 0 else Fl (py_max sims))"
    using hs ne by (simp add: image_similarity_def)
  also have "\<dots> = Fl (py_max (map (\<lambda>t. 1) (filter (\<lambda>t. map_of hs t \<noteq> None) ?ts)))"
    using f by (simp only: hash_similarities_self [OF dist] sum.case map_is_Nil_conv if_False)
  also have "\<dots> = Fl 1"
    using py_max_ones [OF f] by simp
  finally show ?thesis .
qed

text \<open>What the code scorer computes on a bundle and itself, on every path.\<close>

lemma code_similarity_self:
  "code_similarity b b =
     Fl (if (case functions_key b of None \<Rightarrow> [] | Some f \<Rightarrow> f) = [] then 7 / 10 else 1)"
proof -
  define fs where "fs = (case functions_key b of None \<Rightarrow> [] | Some f \<Rightarrow> f)"
  have v: "code_similarity_value b b =
        0.4 + 0.3 + 0.3 * (real (card (set fs)) / real (max (card (set fs)) 1))"
    unfolding code_similarity_value_def Let_def fs_def [symmetric] by simp
  have "code_similarity_value b b = (if fs = [] then 7 / 10 else 1)"
  proof (cases "fs = []")
    case True
    with v show ?thesis by simp
  next
    case False
    then have "0 < card (set fs)" by (simp add: card_gt_0_iff)
    then have "real (card (set fs)) / real (max (card (set fs)) 1) = 1"
      by (simp add: max_def)
    with v False show ?thesis by simp
  qed
  then show ?thesis by (simp only: code_similarity_def fs_def)
qed

text \<open>
  Claim C5 says that every bundle scores about 1.0 against itself. The program
  \<^verbatim>\<open>x = 1\<close> parses and gets the full bundle, with both hashes and with empty lists of
  function and class names; the Jaccard term of two empty sets is 0 / max(0, 1) = 0, and
  the bundle scores 0.7 against itself.
\<close>

theorem code_self_similarity_below_one:
  "generate_fingerprint demo_env ''x = 1'' ''code'' [] = Inr demo_plain_code
   \<and> error demo_plain_code = None
   \<and> calculate_similarity demo_env demo_plain_code demo_plain_code = Fl (7 / 10)"
proof (intro conjI)
  show "generate_fingerprint demo_env ''x = 1'' ''code'' [] = Inr demo_plain_code"
    by (rule demo_plain_code_built)
  show "error demo_plain_code = None"
    by (simp add: demo_plain_code_def demo_fields)
  show "calculate_similarity demo_env demo_plain_code demo_plain_code = Fl (7 / 10)"
    by (simp add: score_run demo_plain_code_def demo_fields)
qed

text \<open>
  Claim C5, amended. The score of a bundle against itself is: for the code scorer and a
  bundle that has both hashes, 1 when the bundle has a function name, and 0.7 when it has
  neither function nor class names; for the image scorer, 1 when the bundle has one of
  the four perceptual hashes and the hash library gives each hash the bundle holds the
  distance 0 to itself; and with the cosine computed in exact arithmetic (float64 rounding
  and underflow are not modelled), for the text scorer, 1 when the embedding it uses (the
  primary one, or the local one when there is no primary one) has a non-zero component,
  and for the audio scorer, 1 when the MFCC vector has a non-zero component.
\<close>

theorem similarity_with_itself:
  "(ast_hash b \<noteq> None \<and> token_hash b \<noteq> None
      \<and> (case functions_key b of None \<Rightarrow> [] | Some f \<Rightarrow> f) \<noteq> [] \<longrightarrow>
      code_similarity b b = Fl 1)
   \<and> (ast_hash b \<noteq> None \<and> token_hash b \<noteq> None
      \<and> (case functions_key b of None \<Rightarrow> [] | Some f \<Rightarrow> f) = []
      \<and> (case classes b of None \<Rightarrow> [] | Some c \<Rightarrow> c) = [] \<longrightarrow>
      code_similarity b b = Fl (7 / 10))
   \<and> (perceptual_hashes b = Some hs
      \<and> (\<exists>t\<in>set [''phash'', ''dhash'', ''ahash'', ''whash'']. map_of hs t \<noteq> None)
      \<and> (\<forall>t\<in>set [''phash'', ''dhash'', ''ahash'', ''whash''].
            \<forall>h. map_of hs t = Some h \<longrightarrow> hash_distance env h h = Inr 0) \<longrightarrow>
      image_similarity env b b = Fl 1)
   \<and> (openai_embedding b = Some v \<and> (\<exists>x\<in>set v. x \<noteq> 0) \<longrightarrow> text_similarity b b = Fl 1)
   \<and> (openai_embedding b = None \<and> local_embedding b = Some v \<and> (\<exists>x\<in>set v. x \<noteq> 0) \<longrightarrow>
        text_similarity b b = Fl 1)
   \<and> (mfcc_features b = Some v \<and> (\<exists>x\<in>set v. x \<noteq> 0) \<longrightarrow> audio_similarity b b = Fl 1)"
proof (intro conjI impI)
  assume "ast_hash b \<noteq> None \<and> token_hash b \<noteq> None
      \<and> (case functions_key b of None \<Rightarrow> [] | Some f \<Rightarrow> f) \<noteq> []"
  then show "code_similarity b b = Fl 1"
    by (simp add: code_similarity_self)
next
  assume "ast_hash b \<noteq> None \<and> token_hash b \<noteq> None
      \<and> (case functions_key b of None \<Rightarrow> [] | Some f \<Rightarrow> f) = []
      \<and> (case classes b of None \<Rightarrow> [] | Some c \<Rightarrow> c) = []"
  then show "code_similarity b b = Fl (7 / 10)"
    by (simp add: code_similarity_self)
next
  assume a: "openai_embedding b = Some v \<and> (\<exists>x\<in>set v. x \<noteq> 0)"
  then have "cosine v v = Inr (Fl 1)" by (simp add: cosine_self np_norm_nonzero)
  with a show "text_similarity b b = Fl 1" by (simp add: text_similarity_def)
next
  assume a: "openai_embedding b = None \<and> local_embedding b = Some v \<and> (\<exists>x\<in>set v. x \<noteq> 0)"
  then have "cosine v v = Inr (Fl 1)" by (simp add: cosine_self np_norm_nonzero)
  with a show "text_similarity b b = Fl 1" by (simp add: text_similarity_def)
next
  assume a: "mfcc_features b = Some v \<and> (\<exists>x\<in>set v. x \<noteq> 0)"
  then have c: "cosine v v = Inr (Fl 1)" by (simp add: cosine_self np_norm_nonzero)
  from a have "v \<noteq> []" by auto
  with a c show "audio_similarity b b = Fl 1" by (simp add: audio_similarity_def)
next
  assume "perceptual_hashes b = Some hs
      \<and> (\<exists>t\<in>set [''phash'', ''dhash'', ''ahash'', ''whash'']. map_of hs t \<noteq> None)
      \<and> (\<forall>t\<in>set [''phash'', ''dhash'', ''ahash'', ''whash''].
            \<forall>h. map_of hs t = Some h \<longrightarrow> hash_distance env h h = Inr 0)"
  then show "image_similarity env b b = Fl 1"
    by (intro image_similarity_self) blast+
qed

theorem similarity_with_itself_witness:
  "code_similarity demo_function_code demo_function_code = Fl 1
   \<and> code_similarity demo_plain_code demo_plain_code = Fl (7 / 10)
   \<and> image_similarity demo_env demo_image demo_image = Fl 1
   \<and> text_similarity demo_text demo_text = Fl 1
   \<and> audio_similarity demo_audio demo_audio = Fl 1"
proof (intro conjI)
  have "ast_hash demo_function_code \<noteq> None \<and> token_hash demo_function_code \<noteq> None
      \<and> (case functions_key demo_function_code of None \<Rightarrow> [] | Some f \<Rightarrow> f) \<noteq> []"
    by (simp add: demo_function_code_def demo_fields)
  with similarity_with_itself [of demo_function_code]
  show "code_similarity demo_function_code demo_function_code = Fl 1" by blast
next
  have "ast_hash demo_plain_code \<noteq> None \<and> token_hash demo_plain_code \<noteq> None
      \<and> (case functions_key demo_plain_code of None \<Rightarrow> [] | Some f \<Rightarrow> f) = []
      \<and> (case classes demo_plain_code of None \<Rightarrow> [] | Some c \<Rightarrow> c) = []"
    by (simp add: demo_plain_code_def demo_fields)
  with similarity_with_itself [of demo_plain_code]
  show "code_similarity demo_plain_code demo_plain_code = Fl (7 / 10)" by blast
next
  have "openai_embedding demo_text = None \<and> local_embedding demo_text = Some [1, 0]
        \<and> (\<exists>x\<in>set [1, 0::real]. x \<noteq> 0)"
    by (simp add: demo_text_def demo_fields)
  with similarity_with_itself [where b = demo_text and v = "[1, 0]"]
  show "text_similarity demo_text demo_text = Fl 1" by blast
next
  have "mfcc_features demo_audio = Some [- 3, 4] \<and> (\<exists>x\<in>set [- 3, 4::real]. x \<noteq> 0)"
    by (simp add: demo_audio_def demo_fields)
  with similarity_with_itself [where b = demo_audio and v = "[- 3, 4]"]
  show "audio_similarity demo_audio demo_audio = Fl 1" by blast
next
  let ?hs = "[(''phash'', ''c3e1f0783c1e0f87''), (''dhash'', ''0f0f0f0f0f0f0f0f'')]"
  have "perceptual_hashes demo_image = Some ?hs
        \<and> (\<exists>t\<in>set [''phash'', ''dhash'', ''ahash'', ''whash'']. map_of ?hs t \<noteq> None)
        \<and> (\<forall>t\<in>set [''phash'', ''dhash'', ''ahash'', ''whash''].
              \<forall>h. map_of ?hs t = Some h \<longrightarrow> hash_distance demo_env h h = Inr 0)"
    by (simp add: demo_image_def demo_env_def demo_fields)
  with similarity_with_itself [where b = demo_image and hs = ?hs and env = demo_env]
  show "image_similarity demo_env demo_image demo_image = Fl 1" by blast
qed

section \<open>Errors of the builder\<close>






section \<open>Fingerprint ids\<close>

lemma update_with_fields:
  "fingerprint_id (update_with fid ctype ts md b) = fid"
  "content_type (update_with fid ctype ts md b) = ctype"
  "content_hash (update_with fid ctype ts md b) = content_hash b"
  by (simp_all add: update_with_def feature_bundle.defs fingerprint.defs)

lemma generate_fingerprint_Inr:
  assumes "generate_fingerprint env c k md = Inr fp"
  shows "fingerprint_id fp = generate_id env c k"
    and "k = ''text'' \<Longrightarrow> \<exists>b. fingerprint_text env c = Inr b \<and> content_hash fp = content_hash b"
    and "k = ''code'' \<Longrightarrow> content_hash fp = content_hash (fingerprint_code env c)"
  using assms
  by (auto simp: generate_fingerprint_def Let_def update_with_fields
      split: if_splits sum.splits)

lemma fingerprint_text_content_hash:
  "fingerprint_text env text = Inr b \<Longrightarrow> content_hash b = Some (md5_hexdigest env text)"
  by (auto simp: fingerprint_text_def text_try_def empty_bundle_def split: sum.splits)

lemma fingerprint_code_content_hash:
  "content_hash (fingerprint_code env code) = Some (md5_hexdigest env code)"
  by (auto simp: fingerprint_code_def code_try_def empty_bundle_def Let_def split: sum.splits)

text \<open>The extractors and the id do not read the clock.\<close>

lemma extractors_ignore_clock:
  "fingerprint_text (env\<lparr>utcnow_isoformat := t\<rparr>) c = fingerprint_text env c"
  "fingerprint_image (env\<lparr>utcnow_isoformat := t\<rparr>) c = fingerprint_image env c"
  "fingerprint_audio (env\<lparr>utcnow_isoformat := t\<rparr>) c = fingerprint_audio env c"
  "fingerprint_code (env\<lparr>utcnow_isoformat := t\<rparr>) c = fingerprint_code env c"
  "generate_id (env\<lparr>utcnow_isoformat := t\<rparr>) c k = generate_id env c k"
  by (simp_all add: fingerprint_text_def text_try_def fingerprint_image_def image_try_def
      fingerprint_audio_def audio_try_def fingerprint_code_def code_try_def generate_id_def
      split: sum.splits prod.splits)

lemma generate_id_kinds_differ:
  "k \<in> set supported_kinds \<Longrightarrow> k' \<in> set supported_kinds \<Longrightarrow> k' \<noteq> k \<Longrightarrow>
   generate_id env' c' k' \<noteq> generate_id env c k"
  by (auto simp: supported_kinds_def generate_id_def)

text \<open>
  Claim C1. For every content and every supported kind: two calls of the builder, at
  different times and with different metadata, raise the same exception or return
  fingerprints with the same id and the same content hash; the id of a returned
  fingerprint is \<^verbatim>\<open>fp_\<close>, the kind, \<^verbatim>\<open>_\<close> and the first 16 characters of the SHA-256 hex
  digest of the kind, a colon and the content (16 characters when the digest has at least
  16); the ids of two fingerprints of different supported kinds differ, whatever their
  contents; and for text and code, where the content hash is the MD5 digest of the
  content on every path, id and hash are the same even when the embedding service or the
  parser answer differently in the two calls.
\<close>

theorem generate_fingerprint_deterministic:
  assumes k: "k \<in> set supported_kinds"
  shows
    "map_sum id (\<lambda>fp. (fingerprint_id fp, content_hash fp))
        (generate_fingerprint (env\<lparr>utcnow_isoformat := t1\<rparr>) c k md1) =
     map_sum id (\<lambda>fp. (fingerprint_id fp, content_hash fp))
        (generate_fingerprint (env\<lparr>utcnow_isoformat := t2\<rparr>) c k md2)
     \<and> (\<forall>fp. generate_fingerprint env c k md = Inr fp \<longrightarrow>
           fingerprint_id fp =
             ''fp_'' @ k @ ''_'' @ take 16 (sha256_hexdigest env (k @ '':'' @ c))
           \<and> (16 \<le> length (sha256_hexdigest env (k @ '':'' @ c)) \<longrightarrow>
                length (fingerprint_id fp) = 4 + length k + 16))
     \<and> (\<forall>k' env' c' md' fp fp'.
           k' \<in> set supported_kinds \<and> k' \<noteq> k
           \<and> generate_fingerprint env c k md = Inr fp
           \<and> generate_fingerprint env' c' k' md' = Inr fp' \<longrightarrow>
           fingerprint_id fp' \<noteq> fingerprint_id fp)
     \<and> (\<forall>env' md' fp fp'.
           (k = ''text'' \<or> k = ''code'')
           \<and> sha256_hexdigest env' = sha256_hexdigest env
           \<and> md5_hexdigest env' = md5_hexdigest env
           \<and> generate_fingerprint env c k md = Inr fp
           \<and> generate_fingerprint env' c k md' = Inr fp' \<longrightarrow>
           fingerprint_id fp' = fingerprint_id fp
           \<and> content_hash fp' = content_hash fp
           \<and> content_hash fp = Some (md5_hexdigest env c))"
proof (intro conjI allI impI)
  show "map_sum id (\<lambda>fp. (fingerprint_id fp, content_hash fp))
        (generate_fingerprint (env\<lparr>utcnow_isoformat := t1\<rparr>) c k md1) =
     map_sum id (\<lambda>fp. (fingerprint_id fp, content_hash fp))
        (generate_fingerprint (env\<lparr>utcnow_isoformat := t2\<rparr>) c k md2)"
    by (cases "fingerprint_text env c")
       (simp_all add: generate_fingerprint_def Let_def extractors_ignore_clock
          update_with_fields)
next
  fix fp
  assume "generate_fingerprint env c k md = Inr fp"
  then have "fingerprint_id fp = generate_id env c k"
    by (rule generate_fingerprint_Inr(1))
  then show "fingerprint_id fp =
      ''fp_'' @ k @ ''_'' @ take 16 (sha256_hexdigest env (k @ '':'' @ c))"
    by (simp add: generate_id_def)
next
  fix fp
  assume "generate_fingerprint env c k md = Inr fp"
    and len: "16 \<le> length (sha256_hexdigest env (k @ '':'' @ c))"
  then have "fingerprint_id fp = generate_id env c k"
    by (simp only: generate_fingerprint_Inr(1))
  with len show "length (fingerprint_id fp) = 4 + length k + 16"
    by (simp add: generate_id_def)
next
  fix k' env' c' md' fp fp'
  assume a: "k' \<in> set supported_kinds \<and> k' \<noteq> k
           \<and> generate_fingerprint env c k md = Inr fp
           \<and> generate_fingerprint env' c' k' md' = Inr fp'"
  then have "fingerprint_id fp = generate_id env c k"
    and "fingerprint_id fp' = generate_id env' c' k'"
    using generate_fingerprint_Inr(1) by blast+
  with a k show "fingerprint_id fp' \<noteq> fingerprint_id fp"
    by (simp add: generate_id_kinds_differ)
next
  fix env' md' fp fp'
  assume a: "(k = ''text'' \<or> k = ''code'')
           \<and> sha256_hexdigest env' = sha256_hexdigest env
           \<and> md5_hexdigest env' = md5_hexdigest env
           \<and> generate_fingerprint env c k md = Inr fp
           \<and> generate_fingerprint env' c k md' = Inr fp'"
  then have r: "generate_fingerprint env c k md = Inr fp"
    and r': "generate_fingerprint env' c k md' = Inr fp'" by simp_all
  from a show "fingerprint_id fp' = fingerprint_id fp"
    by (simp add: generate_fingerprint_Inr(1) [OF r] generate_fingerprint_Inr(1) [OF r']
        generate_id_def)
  have h: "content_hash fp = Some (md5_hexdigest env c)"
    using a generate_fingerprint_Inr(2,3) [OF r]
    by (auto simp: fingerprint_text_content_hash fingerprint_code_content_hash)
  have h': "content_hash fp' = Some (md5_hexdigest env' c)"
    using a generate_fingerprint_Inr(2,3) [OF r']
    by (auto simp: fingerprint_text_content_hash fingerprint_code_content_hash)
  from h show "content_hash fp = Some (md5_hexdigest env c)" .
  from h h' a show "content_hash fp' = content_hash fp" by simp
qed

theorem generate_fingerprint_deterministic_witness:
  "''text'' \<in> set supported_kinds
   \<and> generate_fingerprint demo_env ''hello world'' ''text'' [] = Inr demo_text
   \<and> fingerprint_id demo_text = ''fp_text_0123456789abcdef''
   \<and> length (fingerprint_id demo_text) = 24
   \<and> fingerprint_id demo_broken_code \<noteq> fingerprint_id demo_text
   \<and> content_hash demo_text = Some ''md5:hello world''"
proof -
  have k: "''text'' \<in> set supported_kinds" by (simp add: supported_kinds_def)
  note th = generate_fingerprint_deterministic
    [OF k, where env = demo_env and c = "''hello world''" and md = "[]"]
  have k': "''code'' \<in> set supported_kinds \<and> ''code'' \<noteq> ''text''"
    by (simp add: supported_kinds_def)
  have len: "16 \<le> length (sha256_hexdigest demo_env (''text'' @ '':'' @ ''hello world''))"
    by (simp add: demo_env_def)
  have sha: "sha256_hexdigest demo_env (''text'' @ '':'' @ ''hello world'') =
      ''0123456789abcdef0123456789abcdef0123456789abcdef0123456789abcdef''"
    by (simp add: demo_env_def)
  have md5: "md5_hexdigest demo_env ''hello world'' = ''md5:hello world''"
    by (simp add: demo_env_def)
  from th demo_text_built have "fingerprint_id demo_text =
      ''fp_'' @ ''text'' @ ''_'' @
        take 16 (sha256_hexdigest demo_env (''text'' @ '':'' @ ''hello world''))"
    by blast
  then have id: "fingerprint_id demo_text = ''fp_text_0123456789abcdef''"
    by (simp only: sha) simp
  from th demo_text_built len have l: "length (fingerprint_id demo_text) = 4 + length ''text'' + 16"
    by blast
  from th k' demo_text_built demo_broken_code_built
  have d: "fingerprint_id demo_broken_code \<noteq> fingerprint_id demo_text"
    by blast
  from th demo_text_built
  have "content_hash demo_text = Some (md5_hexdigest demo_env ''hello world'')"
    by blast
  with k id l d demo_text_built md5 show ?thesis by simp
qed


end
